theory Spec2Isabelle
  imports Main "HOL-Library.Sublist" "HOL-Library.Char_ord"
begin

section \<open>The tus example server: authorization check and upload hook\<close>

text \<open>
  The program is \<^verbatim>\<open>src/main.go\<close>: it configures the tusd upload handler with a
  pre-create hook, and serves it under \<^verbatim>\<open>/files/\<close> behind a check of the
  \<^verbatim>\<open>Authorization\<close> header. Strings are Go strings, that is byte sequences
  (\<^typ>\<open>string\<close>); a Go \<^verbatim>\<open>error\<close> result is \<^typ>\<open>'e option\<close> with
  \<^term>\<open>None\<close> for \<^verbatim>\<open>nil\<close>.
\<close>

subsection \<open>Errors\<close>

text \<open>The only errors the program builds are made by \<^verbatim>\<open>fmt.Errorf\<close> from a message.\<close>

datatype error = Errorf string

subsection \<open>\<^verbatim>\<open>strings.TrimLeft\<close>\<close>

text \<open>
  \<^verbatim>\<open>strings.TrimLeft(s, cutset)\<close> belongs to Go's standard library. It returns \<^verbatim>\<open>s\<close>
  when \<^verbatim>\<open>s\<close> or \<^verbatim>\<open>cutset\<close> is empty; for a cutset of ASCII bytes (the only call of
  the program passes \<^verbatim>\<open>"Bearer "\<close>) it runs the byte loop
  \<^verbatim>\<open>for len(s) > 0 { if !as.contains(s[0]) { break }; s = s[1:] }\<close>.
\<close>

fun trimLeftASCII :: "string \<Rightarrow> string \<Rightarrow> string" where
  "trimLeftASCII [] cutset = []"
| "trimLeftASCII (c # s) cutset =
     (if c \<in> set cutset then trimLeftASCII s cutset else c # s)"

definition TrimLeft :: "string \<Rightarrow> string \<Rightarrow> string" where
  "TrimLeft s cutset = (if s = [] \<or> cutset = [] then s else trimLeftASCII s cutset)"

subsection \<open>\<^verbatim>\<open>checkJWT\<close> (main.go, lines 54 to 60)\<close>

definition checkJWT :: "string \<Rightarrow> error option" where
  "checkJWT authorizationHeader =
     (let jwt = TrimLeft authorizationHeader ''Bearer ''
      in if jwt \<noteq> ''TrueJWT'' then Some (Errorf ''Access denied'') else None)"

subsection \<open>\<^verbatim>\<open>http.Header\<close>\<close>

text \<open>
  \<^verbatim>\<open>http.Header\<close> is \<^verbatim>\<open>map[string][]string\<close>, keyed by canonical header names.
  \<^verbatim>\<open>Header.Get(key)\<close> (Go's standard library, \<^verbatim>\<open>net/textproto\<close>) canonicalises
  \<^verbatim>\<open>key\<close> and returns the first value stored under it, or \<^verbatim>\<open>""\<close> when there is
  none. Canonicalising leaves a key with a byte that is no token byte as it is; otherwise
  it makes the first letter and every letter after a \<^verbatim>\<open>-\<close> upper case and all other
  letters lower case.
\<close>

type_synonym Header = "string \<rightharpoonup> string list"

definition validHeaderFieldByte :: "char \<Rightarrow> bool" where
  "validHeaderFieldByte c =
     (c \<in> set (''!#$%&*+-.^_`|~'' @ [CHR 0x27] @ ''0123456789''
        @ ''abcdefghijklmnopqrstuvwxyz'' @ ''ABCDEFGHIJKLMNOPQRSTUVWXYZ''))"

definition canonByte :: "bool \<Rightarrow> char \<Rightarrow> char" where
  "canonByte upper c =
     (if upper \<and> CHR ''a'' \<le> c \<and> c \<le> CHR ''z'' then char_of (of_char c - (32::nat))
      else if \<not> upper \<and> CHR ''A'' \<le> c \<and> c \<le> CHR ''Z'' then char_of (of_char c + (32::nat))
      else c)"

fun canonLoop :: "bool \<Rightarrow> string \<Rightarrow> string" where
  "canonLoop upper [] = []"
| "canonLoop upper (c # a) =
     (let c' = canonByte upper c in c' # canonLoop (c' = CHR ''-'') a)"

definition CanonicalMIMEHeaderKey :: "string \<Rightarrow> string" where
  "CanonicalMIMEHeaderKey s =
     (if list_all validHeaderFieldByte s then canonLoop True s else s)"

definition Get :: "Header \<Rightarrow> string \<Rightarrow> string" where
  "Get h key =
     (case h (CanonicalMIMEHeaderKey key) of
        None \<Rightarrow> []
      | Some [] \<Rightarrow> []
      | Some (v # _) \<Rightarrow> v)"

subsection \<open>The hook event of tusd\<close>

text \<open>
  The types of the tusd handler package that \<^verbatim>\<open>main.go\<close> uses. \<^verbatim>\<open>FileInfo\<close> has the
  fields of the \<^verbatim>\<open>.info\<close> file shown in the repository's article; \<^verbatim>\<open>HookEvent\<close>
  holds the upload's \<^verbatim>\<open>FileInfo\<close> and the request's method, URI, remote address and
  header.

  \<^verbatim>\<open>MetaData\<close> is a Go map, \<^verbatim>\<open>map[string]string\<close>: a reference to a table that every
  copy of the \<^verbatim>\<open>FileInfo\<close> shares. The field therefore holds an address, and the tables
  live in a store. The handler builds the table with \<^verbatim>\<open>make\<close> before it runs the hook,
  so every address is taken to hold a table; Go's \<^verbatim>\<open>nil\<close> map, on which an assignment
  panics, is not a value of this model.
\<close>

type_synonym addr = nat

type_synonym MetaData = "string \<rightharpoonup> string"

type_synonym heap = "addr \<Rightarrow> MetaData"

record FileInfo =
  ID :: string
  Size :: int
  SizeIsDeferred :: bool
  Offset :: int
  MetaData :: addr
  IsPartial :: bool
  IsFinal :: bool
  PartialUploads :: "string list"
  Storage :: "string \<rightharpoonup> string"

record HTTPRequest =
  Method :: string
  URI :: string
  RemoteAddr :: string
  Header :: Header

record HookEvent =
  Upload :: FileInfo
  HTTPRequest :: HTTPRequest

subsection \<open>\<^verbatim>\<open>PreUploadCreateCallback\<close> (main.go, lines 22 to 25)\<close>

text \<open>
  \<^verbatim>\<open>hook.Upload.MetaData["filename"] = hook.HTTPRequest.Header.Get("filename")\<close> writes
  into the table that \<^verbatim>\<open>hook.Upload.MetaData\<close> refers to; then the hook returns
  \<^verbatim>\<open>nil\<close>. The result is the store after the call and the returned error.
\<close>

definition PreUploadCreateCallback :: "heap \<Rightarrow> HookEvent \<Rightarrow> heap \<times> error option" where
  "PreUploadCreateCallback hp hook =
     (let m = MetaData (Upload hook)
      in (hp(m := (hp m)(''filename'' \<mapsto> Get (HTTPRequest.Header (HTTPRequest hook)) ''filename'')),
          None))"

subsection \<open>The request handler under \<^verbatim>\<open>/files/\<close> (main.go, lines 38 to 46)\<close>

text \<open>
  Of \<^verbatim>\<open>http.ResponseWriter\<close> the program calls \<^verbatim>\<open>WriteHeader\<close> only. The standard
  library's writer sends the status line on the first call and ignores every later one.
\<close>

record ResponseWriter =
  wroteHeader :: bool
  status :: nat

definition WriteHeader :: "ResponseWriter \<Rightarrow> nat \<Rightarrow> ResponseWriter" where
  "WriteHeader w code =
     (if wroteHeader w then w else w\<lparr>wroteHeader := True, status := code\<rparr>)"

definition StatusUnauthorized :: nat where
  "StatusUnauthorized = 401"

record Request =
  Method :: string
  Path :: string
  Header :: Header

text \<open>
  \<^verbatim>\<open>customHandler\<close> is \<^verbatim>\<open>http.StripPrefix("/files/", handler)\<close>, the tusd handler
  behind the standard library's prefix stripping. Neither is code of this program, so
  the model takes \<^verbatim>\<open>customHandler.ServeHTTP\<close> as a parameter: a function of the state
  that the handler owns (its uploads and their storage), the response writer and the
  request, returning the state and the writer after the call. The call
  \<^verbatim>\<open>handler.Middleware(customHandler)\<close> on line 39 builds a wrapped handler and drops
  it, so it does not show in what is served.
\<close>

type_synonym 's Handler = "'s \<Rightarrow> ResponseWriter \<Rightarrow> Request \<Rightarrow> 's \<times> ResponseWriter"

text \<open>
  The function registered for \<^verbatim>\<open>/files/\<close>:
  \<^verbatim>\<open>
  err := checkJWT(req.Header.Get("Authorization"))
  if err != nil {
      w.WriteHeader(http.StatusUnauthorized)
  }
  customHandler.ServeHTTP(w, req)
  \<close>
\<close>

definition files_handler :: "'s Handler \<Rightarrow> 's Handler" where
  "files_handler customHandler s w req =
     (let err = checkJWT (Get (Request.Header req) ''Authorization'');
          w' = (if err \<noteq> None then WriteHeader w StatusUnauthorized else w)
      in customHandler s w' req)"

subsection \<open>Concrete requests, hook events and stores\<close>

text \<open>
  The values at which the theorems below are evaluated. The upload and its request are
  those of the article's \<^verbatim>\<open>curl\<close> call: a \<^verbatim>\<open>POST\<close> to \<^verbatim>\<open>/files/\<close> announcing 24
  bytes, with or without a \<^verbatim>\<open>Filename\<close> header, and without an \<^verbatim>\<open>Authorization\<close>
  header.
\<close>

definition emptyHeap :: heap where
  "emptyHeap a = Map.empty"

definition clientHeap :: heap where
  "clientHeap a =
     (if a = 0 then [''filename'' \<mapsto> ''client.bin'', ''owner'' \<mapsto> ''alice''] else Map.empty)"

definition upload_test :: FileInfo where
  "upload_test =
     \<lparr>ID = ''dd6c76437675c9d3c40b02cfcdfec3b7'', Size = 24, SizeIsDeferred = False,
      Offset = 0, MetaData = 0, IsPartial = False, IsFinal = False, PartialUploads = [],
      Storage = Map.empty\<rparr>"

definition hook_test :: HookEvent where
  "hook_test =
     \<lparr>Upload = upload_test,
      HTTPRequest =
        \<lparr>HTTPRequest.Method = ''POST'', URI = ''/files/'', RemoteAddr = ''127.0.0.1:50000'',
         HTTPRequest.Header =
           [''Tus-Resumable'' \<mapsto> [''1.0.0''], ''Upload-Length'' \<mapsto> [''24''],
            ''Filename'' \<mapsto> [''test.txt'']]\<rparr>\<rparr>"

definition hook_no_filename :: HookEvent where
  "hook_no_filename =
     \<lparr>Upload = upload_test,
      HTTPRequest =
        \<lparr>HTTPRequest.Method = ''POST'', URI = ''/files/'', RemoteAddr = ''127.0.0.1:50000'',
         HTTPRequest.Header =
           [''Tus-Resumable'' \<mapsto> [''1.0.0''], ''Upload-Length'' \<mapsto> [''24'']]\<rparr>\<rparr>"

definition hook_empty_filename :: HookEvent where
  "hook_empty_filename =
     \<lparr>Upload = upload_test,
      HTTPRequest =
        \<lparr>HTTPRequest.Method = ''POST'', URI = ''/files/'', RemoteAddr = ''127.0.0.1:50000'',
         HTTPRequest.Header =
           [''Tus-Resumable'' \<mapsto> [''1.0.0''], ''Upload-Length'' \<mapsto> [''24''],
            ''Filename'' \<mapsto> []]\<rparr>\<rparr>"

definition post_without_authorization :: Request where
  "post_without_authorization =
     \<lparr>Request.Method = ''POST'', Path = ''/files/'',
      Request.Header = [''Tus-Resumable'' \<mapsto> [''1.0.0''], ''Upload-Length'' \<mapsto> [''24'']]\<rparr>"

definition newResponseWriter :: ResponseWriter where
  "newResponseWriter = \<lparr>wroteHeader = False, status = 200\<rparr>"

text \<open>
  A handler to put in the place of \<^verbatim>\<open>customHandler\<close> where a theorem needs a concrete
  one: its state is the list of the requests it has served, and it answers
  \<^verbatim>\<open>201 Created\<close>.
\<close>

definition recordingHandler :: "Request list Handler" where
  "recordingHandler s w req = (s @ [req], WriteHeader w 201)"

section \<open>Properties\<close>

subsection \<open>Trimming and the header lookup\<close>

lemma trimLeftASCII_dropWhile:
  "trimLeftASCII s cutset = dropWhile (\<lambda>c. c \<in> set cutset) s"
  by (induction s) auto

lemma TrimLeft_dropWhile:
  "TrimLeft s cutset = dropWhile (\<lambda>c. c \<in> set cutset) s"
  by (cases s) (auto simp: TrimLeft_def trimLeftASCII_dropWhile)

lemma canon_filename: "CanonicalMIMEHeaderKey ''filename'' = ''Filename''"
  by code_simp

lemma canon_Authorization: "CanonicalMIMEHeaderKey ''Authorization'' = ''Authorization''"
  by code_simp

lemma Get_filename:
  "Get h ''filename'' = (case h ''Filename'' of None \<Rightarrow> [] | Some [] \<Rightarrow> [] | Some (v # _) \<Rightarrow> v)"
  by (simp add: Get_def canon_filename)

lemma Get_Authorization:
  "Get h ''Authorization'' =
     (case h ''Authorization'' of None \<Rightarrow> [] | Some [] \<Rightarrow> [] | Some (v # _) \<Rightarrow> v)"
  by (simp add: Get_def canon_Authorization)

subsection \<open>\<^verbatim>\<open>checkJWT\<close>\<close>

text \<open>
  The headers that \<^verbatim>\<open>checkJWT\<close> lets through are exactly \<^verbatim>\<open>TrueJWT\<close> behind any
  run of the bytes of \<^verbatim>\<open>"Bearer "\<close>, in any order and number.
\<close>

lemma checkJWT_allows_iff:
  "(checkJWT h = None) = (\<exists>p. h = p @ ''TrueJWT'' \<and> set p \<subseteq> set ''Bearer '')"
proof
  assume "checkJWT h = None"
  then have t: "dropWhile (\<lambda>c. c \<in> set ''Bearer '') h = ''TrueJWT''"
    by (simp add: checkJWT_def TrimLeft_dropWhile split: if_splits)
  have "h = takeWhile (\<lambda>c. c \<in> set ''Bearer '') h @ dropWhile (\<lambda>c. c \<in> set ''Bearer '') h"
    by simp
  moreover have "set (takeWhile (\<lambda>c. c \<in> set ''Bearer '') h) \<subseteq> set ''Bearer ''"
    using set_takeWhileD by fastforce
  ultimately show "\<exists>p. h = p @ ''TrueJWT'' \<and> set p \<subseteq> set ''Bearer ''"
    using t by metis
next
  assume "\<exists>p. h = p @ ''TrueJWT'' \<and> set p \<subseteq> set ''Bearer ''"
  then obtain p where h: "h = p @ ''TrueJWT''" and p: "set p \<subseteq> set ''Bearer ''"
    by blast
  have "dropWhile (\<lambda>c. c \<in> set ''Bearer '') (p @ ''TrueJWT'')
      = dropWhile (\<lambda>c. c \<in> set ''Bearer '') ''TrueJWT''"
    using p by (intro dropWhile_append2) auto
  then show "checkJWT h = None"
    by (simp add: checkJWT_def TrimLeft_dropWhile h)
qed

text \<open>
  C9. For every string \<open>h\<close>, \<^verbatim>\<open>checkJWT(h)\<close> returns \<^verbatim>\<open>nil\<close> if and only if
  \<^verbatim>\<open>strings.TrimLeft(h, "Bearer ")\<close> equals \<^verbatim>\<open>"TrueJWT"\<close>. In particular
  \<^verbatim>\<open>checkJWT("")\<close>, the case of a missing \<^verbatim>\<open>Authorization\<close> header, returns the error
  \<^verbatim>\<open>Access denied\<close>, and \<^verbatim>\<open>checkJWT("Bearer TrueJWT")\<close> returns \<^verbatim>\<open>nil\<close>.
\<close>

theorem checkJWT_nil_iff_trimmed_TrueJWT:
  "(\<forall>h. (checkJWT h = None) = (TrimLeft h ''Bearer '' = ''TrueJWT''))
   \<and> checkJWT '''' = Some (Errorf ''Access denied'')
   \<and> checkJWT ''Bearer TrueJWT'' = None"
  by (simp add: checkJWT_def TrimLeft_def)

text \<open>
  C2. \<^verbatim>\<open>TrimLeft(header, "Bearer ")\<close> trims by character set and does not remove a
  literal prefix: it strips every leading byte that is one of \<^verbatim>\<open>B\<close>, \<^verbatim>\<open>e\<close>, \<^verbatim>\<open>a\<close>,
  \<^verbatim>\<open>r\<close> and the space. So there are headers that do not begin with \<^verbatim>\<open>"Bearer "\<close>
  and that \<^verbatim>\<open>checkJWT\<close> allows; \<^verbatim>\<open>"TrueJWT"\<close> and \<^verbatim>\<open>"rraeB TrueJWT"\<close> are two.
\<close>

theorem checkJWT_allows_without_Bearer_prefix:
  "(\<forall>h. TrimLeft h ''Bearer ''
        = dropWhile (\<lambda>c. c \<in> {CHR ''B'', CHR ''e'', CHR ''a'', CHR ''r'', CHR '' ''}) h)
   \<and> (\<exists>h. \<not> prefix ''Bearer '' h \<and> checkJWT h = None)
   \<and> \<not> prefix ''Bearer '' ''TrueJWT'' \<and> checkJWT ''TrueJWT'' = None
   \<and> \<not> prefix ''Bearer '' ''rraeB TrueJWT'' \<and> checkJWT ''rraeB TrueJWT'' = None"
proof -
  have s: "(\<lambda>c. c \<in> set ''Bearer '')
      = (\<lambda>c. c \<in> {CHR ''B'', CHR ''e'', CHR ''a'', CHR ''r'', CHR '' ''})"
    by auto
  have a: "\<forall>h. TrimLeft h ''Bearer ''
      = dropWhile (\<lambda>c. c \<in> {CHR ''B'', CHR ''e'', CHR ''a'', CHR ''r'', CHR '' ''}) h"
    using TrimLeft_dropWhile [of _ "''Bearer ''"] unfolding s by simp
  have b: "\<not> prefix ''Bearer '' ''TrueJWT'' \<and> checkJWT ''TrueJWT'' = None"
    by (simp add: checkJWT_def TrimLeft_def)
  have c: "\<not> prefix ''Bearer '' ''rraeB TrueJWT'' \<and> checkJWT ''rraeB TrueJWT'' = None"
    by (simp add: checkJWT_def TrimLeft_def)
  from a b c show ?thesis
    by blast
qed

subsection \<open>The pre-create hook\<close>

text \<open>
  C10. \<^verbatim>\<open>PreUploadCreateCallback\<close> returns \<^verbatim>\<open>nil\<close> for every hook event, so it never
  rejects the creation of an upload. It sets the key \<^verbatim>\<open>filename\<close> of the upload's
  metadata to the value of the request header \<^verbatim>\<open>filename\<close>: to the first value that
  the request's header map holds under the canonical name \<^verbatim>\<open>Filename\<close>, and to the
  empty string when the map has no such entry or an entry without values. Whatever the
  client had put under \<^verbatim>\<open>filename\<close> is overwritten: the store \<open>hp\<close> before the call is
  arbitrary.
\<close>

theorem PreUploadCreateCallback_sets_filename:
  "snd (PreUploadCreateCallback hp hook) = None
   \<and> fst (PreUploadCreateCallback hp hook) (MetaData (Upload hook)) ''filename''
       = Some (Get (HTTPRequest.Header (HTTPRequest hook)) ''filename'')
   \<and> (HTTPRequest.Header (HTTPRequest hook) ''Filename'' = None \<longrightarrow>
        fst (PreUploadCreateCallback hp hook) (MetaData (Upload hook)) ''filename'' = Some '''')
   \<and> (\<forall>v vs. HTTPRequest.Header (HTTPRequest hook) ''Filename'' = Some (v # vs) \<longrightarrow>
        fst (PreUploadCreateCallback hp hook) (MetaData (Upload hook)) ''filename'' = Some v)
   \<and> (HTTPRequest.Header (HTTPRequest hook) ''Filename'' = Some [] \<longrightarrow>
        fst (PreUploadCreateCallback hp hook) (MetaData (Upload hook)) ''filename'' = Some '''')"
  by (simp add: PreUploadCreateCallback_def Let_def Get_filename)

text \<open>
  The client sent the metadata \<^verbatim>\<open>filename client.bin\<close>. With the header
  \<^verbatim>\<open>Filename: test.txt\<close> the entry becomes \<^verbatim>\<open>test.txt\<close> after the hook; with no
  \<^verbatim>\<open>Filename\<close> header it becomes the empty string; with the header present but holding
  no value it becomes the empty string too.
\<close>

theorem PreUploadCreateCallback_sets_filename_witness:
  "HTTPRequest.Header (HTTPRequest hook_test) ''Filename'' = Some (''test.txt'' # [])
   \<and> clientHeap (MetaData (Upload hook_test)) ''filename'' = Some ''client.bin''
   \<and> fst (PreUploadCreateCallback clientHeap hook_test)
        (MetaData (Upload hook_test)) ''filename'' = Some ''test.txt''
   \<and> snd (PreUploadCreateCallback clientHeap hook_test) = None
   \<and> HTTPRequest.Header (HTTPRequest hook_no_filename) ''Filename'' = None
   \<and> clientHeap (MetaData (Upload hook_no_filename)) ''filename'' = Some ''client.bin''
   \<and> fst (PreUploadCreateCallback clientHeap hook_no_filename)
        (MetaData (Upload hook_no_filename)) ''filename'' = Some ''''
   \<and> snd (PreUploadCreateCallback clientHeap hook_no_filename) = None
   \<and> HTTPRequest.Header (HTTPRequest hook_empty_filename) ''Filename'' = Some []
   \<and> fst (PreUploadCreateCallback clientHeap hook_empty_filename)
        (MetaData (Upload hook_empty_filename)) ''filename'' = Some ''''"
proof -
  have p: "HTTPRequest.Header (HTTPRequest hook_test) ''Filename'' = Some (''test.txt'' # [])"
    by (simp add: hook_test_def)
  have a: "HTTPRequest.Header (HTTPRequest hook_no_filename) ''Filename'' = None"
    by (simp add: hook_no_filename_def)
  have e: "HTTPRequest.Header (HTTPRequest hook_empty_filename) ''Filename'' = Some []"
    by (simp add: hook_empty_filename_def)
  have c1: "clientHeap (MetaData (Upload hook_test)) ''filename'' = Some ''client.bin''"
    by (simp add: hook_test_def upload_test_def clientHeap_def)
  have c2: "clientHeap (MetaData (Upload hook_no_filename)) ''filename'' = Some ''client.bin''"
    by (simp add: hook_no_filename_def upload_test_def clientHeap_def)
  have r1: "fst (PreUploadCreateCallback clientHeap hook_test)
      (MetaData (Upload hook_test)) ''filename'' = Some ''test.txt''"
    by (rule PreUploadCreateCallback_sets_filename [of clientHeap hook_test,
          THEN conjunct2, THEN conjunct2, THEN conjunct2, THEN conjunct1, rule_format, OF p])
  have n1: "snd (PreUploadCreateCallback clientHeap hook_test) = None"
    by (rule PreUploadCreateCallback_sets_filename [of clientHeap hook_test, THEN conjunct1])
  have r2: "fst (PreUploadCreateCallback clientHeap hook_no_filename)
      (MetaData (Upload hook_no_filename)) ''filename'' = Some ''''"
    by (rule PreUploadCreateCallback_sets_filename [of clientHeap hook_no_filename,
          THEN conjunct2, THEN conjunct2, THEN conjunct1, rule_format, OF a])
  have n2: "snd (PreUploadCreateCallback clientHeap hook_no_filename) = None"
    by (rule PreUploadCreateCallback_sets_filename [of clientHeap hook_no_filename,
          THEN conjunct1])
  have r3: "fst (PreUploadCreateCallback clientHeap hook_empty_filename)
      (MetaData (Upload hook_empty_filename)) ''filename'' = Some ''''"
    by (rule PreUploadCreateCallback_sets_filename [of clientHeap hook_empty_filename,
          THEN conjunct2, THEN conjunct2, THEN conjunct2, THEN conjunct2, rule_format, OF e])
  from p c1 r1 n1 a c2 r2 n2 e r3 show ?thesis
    by simp
qed

text \<open>With the header \<^verbatim>\<open>Filename: test.txt\<close> the client's entry becomes \<^verbatim>\<open>test.txt\<close>.\<close>

lemma PreUploadCreateCallback_overwrites:
  "clientHeap 0 ''filename'' = Some ''client.bin''
   \<and> fst (PreUploadCreateCallback clientHeap hook_test) 0 ''filename'' = Some ''test.txt''"
  by (simp add: PreUploadCreateCallback_def Let_def Get_filename hook_test_def upload_test_def
      clientHeap_def)

text \<open>
  C6, as the specification words it: the hook is a pure function that mutates no shared
  state outside its return value, that is, the store after the call is the store before
  it. The program's hook does the opposite: it writes into the metadata table that the
  hook event refers to. On an empty table and the request with \<^verbatim>\<open>Filename: test.txt\<close>
  the store after the call is not the store before it.
\<close>

theorem PreUploadCreateCallback_pure_counterexample:
  "fst (PreUploadCreateCallback emptyHeap hook_test) \<noteq> emptyHeap"
proof
  assume "fst (PreUploadCreateCallback emptyHeap hook_test) = emptyHeap"
  then have "fst (PreUploadCreateCallback emptyHeap hook_test) 0 ''filename''
      = emptyHeap 0 ''filename''"
    by simp
  then show False
    by (simp add: PreUploadCreateCallback_def Let_def Get_filename hook_test_def
        upload_test_def emptyHeap_def)
qed

text \<open>
  C6, amended: the hook returns \<^verbatim>\<open>nil\<close> and hands its result over by writing in place
  into the metadata table that the hook event refers to. There it sets the key
  \<^verbatim>\<open>filename\<close> and nothing else: every other key of that table and every other table
  of the store is as before the call, and the keys of the table are the old ones and
  \<^verbatim>\<open>filename\<close>.
\<close>

theorem PreUploadCreateCallback_writes_only_filename:
  "snd (PreUploadCreateCallback hp hook) = None
   \<and> (\<forall>a k. a \<noteq> MetaData (Upload hook) \<or> k \<noteq> ''filename'' \<longrightarrow>
         fst (PreUploadCreateCallback hp hook) a k = hp a k)
   \<and> dom (fst (PreUploadCreateCallback hp hook) (MetaData (Upload hook)))
       = insert ''filename'' (dom (hp (MetaData (Upload hook))))"
  by (auto simp: PreUploadCreateCallback_def Let_def)

theorem PreUploadCreateCallback_writes_only_filename_witness:
  "(1::nat) \<noteq> MetaData (Upload hook_test)
   \<and> fst (PreUploadCreateCallback clientHeap hook_test) 1 ''filename'' = clientHeap 1 ''filename''
   \<and> ''owner'' \<noteq> ''filename''
   \<and> fst (PreUploadCreateCallback clientHeap hook_test) (MetaData (Upload hook_test)) ''owner''
       = clientHeap (MetaData (Upload hook_test)) ''owner''
   \<and> clientHeap (MetaData (Upload hook_test)) ''owner'' = Some ''alice''"
proof -
  have a: "(1::nat) \<noteq> MetaData (Upload hook_test)"
    by (simp add: hook_test_def upload_test_def)
  have k: "''owner'' \<noteq> ''filename''"
    by simp
  have o: "clientHeap (MetaData (Upload hook_test)) ''owner'' = Some ''alice''"
    by (simp add: hook_test_def upload_test_def clientHeap_def)
  have f: "\<forall>a k. a \<noteq> MetaData (Upload hook_test) \<or> k \<noteq> ''filename'' \<longrightarrow>
      fst (PreUploadCreateCallback clientHeap hook_test) a k = clientHeap a k"
    using PreUploadCreateCallback_writes_only_filename [of clientHeap hook_test] by simp
  have "fst (PreUploadCreateCallback clientHeap hook_test) 1 ''filename'' = clientHeap 1 ''filename''"
    using f a by simp
  moreover have "fst (PreUploadCreateCallback clientHeap hook_test) (MetaData (Upload hook_test)) ''owner''
      = clientHeap (MetaData (Upload hook_test)) ''owner''"
    using f k by simp
  ultimately show ?thesis
    using a k o by simp
qed

subsection \<open>The handler under \<^verbatim>\<open>/files/\<close>\<close>

text \<open>
  \<^verbatim>\<open>checkJWT\<close> is evaluated first, on every request. When it allows, the request goes to
  \<^verbatim>\<open>customHandler\<close> with the writer untouched. When it denies, the status
  \<^verbatim>\<open>401 Unauthorized\<close> is written, and since the \<^verbatim>\<open>if\<close> has no \<^verbatim>\<open>return\<close>, the request
  goes to \<^verbatim>\<open>customHandler\<close> all the same.
\<close>

lemma files_handler_allowed:
  "checkJWT (Get (Request.Header req) ''Authorization'') = None \<Longrightarrow>
   files_handler customHandler s w req = customHandler s w req"
  by (simp add: files_handler_def)

lemma files_handler_denied:
  "checkJWT (Get (Request.Header req) ''Authorization'') \<noteq> None \<Longrightarrow>
   files_handler customHandler s w req
     = customHandler s (WriteHeader w StatusUnauthorized) req"
  by (simp add: files_handler_def)

text \<open>
  C1 says that a request which \<^verbatim>\<open>checkJWT\<close> denies is rejected as Unauthorized and that
  the protocol handler performs no state transition for it. The program at a \<^verbatim>\<open>POST\<close>
  without \<^verbatim>\<open>Authorization\<close> header: \<^verbatim>\<open>checkJWT\<close> denies, the status 401 is written, and
  then \<^verbatim>\<open>customHandler.ServeHTTP\<close> runs on the request, for every handler, state and
  writer. The upload operation is executed.
\<close>

theorem files_handler_serves_denied_request:
  "checkJWT (Get (Request.Header post_without_authorization) ''Authorization'')
     = Some (Errorf ''Access denied'')
   \<and> files_handler customHandler s w post_without_authorization
       = customHandler s (WriteHeader w StatusUnauthorized) post_without_authorization"
  by (simp add: files_handler_def Get_Authorization post_without_authorization_def
      checkJWT_def TrimLeft_def)

text \<open>
  C5 says that an operation which returns a validation error, Unauthorized among them,
  leaves the whole state as it was. The program at the same request, in front of a
  handler that keeps the requests it has served: the answer is 401, and the handler's
  state has changed from the empty list to the list holding the request.
\<close>

theorem files_handler_denied_request_changes_state:
  "files_handler recordingHandler [] newResponseWriter post_without_authorization
     = ([post_without_authorization], \<lparr>wroteHeader = True, status = 401\<rparr>)"
  by (simp add: files_handler_def Get_Authorization post_without_authorization_def
      checkJWT_def TrimLeft_def recordingHandler_def WriteHeader_def StatusUnauthorized_def
      newResponseWriter_def)

end
